theory Spec2Isabelle
  imports Main
begin

section \<open>The development server of docs/serve.py\<close>

text \<open>
  The script \<^verbatim>\<open>docs/serve.py\<close> declares \<^verbatim>\<open>WASMHandler\<close>, a subclass of the standard library's
  \<^verbatim>\<open>http.server.SimpleHTTPRequestHandler\<close> that overrides \<^verbatim>\<open>end_headers\<close>, adds one entry
  to the class attribute \<^verbatim>\<open>extensions_map\<close>, and serves with \<^verbatim>\<open>socketserver.TCPServer\<close> on
  port 8080. What a request gets back is decided by the methods the subclass inherits, so the
  embedding contains them too: every definition below names the method it is translated from
  (\<^verbatim>\<open>http/server.py\<close>, \<^verbatim>\<open>socketserver.py\<close>, \<^verbatim>\<open>posixpath.py\<close> of CPython 3.11). Calls on
  \<^verbatim>\<open>self\<close> inside an inherited method dispatch to the subclass, so wherever the library calls
  \<^verbatim>\<open>self.end_headers()\<close> the model calls the override of the script.

  Strings are lists of 8-bit characters: the request line is decoded as ISO-8859-1, one
  character per byte. The operating system and the library functions that lie far from the
  script (percent-decoding, \<^verbatim>\<open>repr\<close>, URL splitting, date formatting, the MIME database) are
  parameters of the model, collected in the records \<open>fsys\<close> and \<open>lib\<close>.
\<close>

subsection \<open>Python string operations\<close>

definition CR :: char where "CR = CHR 0x0D"
definition LF :: char where "LF = CHR 0x0A"
definition NUL :: char where "NUL = CHR 0x00"
definition DQ :: char where "DQ = CHR 0x22"

definition CRLF :: string where "CRLF = [CR, LF]"

text \<open>\<^verbatim>\<open>str.isspace\<close> on the code points below 256.\<close>

definition isspace :: "char \<Rightarrow> bool" where
  "isspace c = (let n = (of_char c :: nat) in
     (9 \<le> n \<and> n \<le> 13) \<or> (28 \<le> n \<and> n \<le> 32) \<or> n = 133 \<or> n = 160)"

text \<open>\<^verbatim>\<open>s.split()\<close>: the maximal runs of non-whitespace characters.\<close>

fun split_ws_acc :: "string \<Rightarrow> string \<Rightarrow> string list" where
  "split_ws_acc w [] = (if w = [] then [] else [w])"
| "split_ws_acc w (c # cs) =
     (if isspace c then (if w = [] then split_ws_acc [] cs else w # split_ws_acc [] cs)
      else split_ws_acc (w @ [c]) cs)"

definition split_ws :: "string \<Rightarrow> string list" where
  "split_ws s = split_ws_acc [] s"

text \<open>\<^verbatim>\<open>s.split(sep)\<close> for a one-character separator: always at least one piece.\<close>

fun split_on :: "char \<Rightarrow> string \<Rightarrow> string list" where
  "split_on sep [] = [[]]"
| "split_on sep (c # cs) =
     (if c = sep then [] # split_on sep cs
      else (case split_on sep cs of w # ws \<Rightarrow> (c # w) # ws | [] \<Rightarrow> [[c]]))"

text \<open>\<^verbatim>\<open>s.split(sep, 1)[0]\<close>: the text before the first separator.\<close>

definition before_first :: "char \<Rightarrow> string \<Rightarrow> string" where
  "before_first sep s = takeWhile (\<lambda>c. c \<noteq> sep) s"

text \<open>\<^verbatim>\<open>s.rstrip(chars)\<close>, \<^verbatim>\<open>s.rstrip()\<close> and \<^verbatim>\<open>s.lstrip(chars)\<close>.\<close>

definition rstrip_chars :: "char set \<Rightarrow> string \<Rightarrow> string" where
  "rstrip_chars cs s = rev (dropWhile (\<lambda>c. c \<in> cs) (rev s))"

definition rstrip :: "string \<Rightarrow> string" where
  "rstrip s = rev (dropWhile isspace (rev s))"

definition lstrip_chars :: "char set \<Rightarrow> string \<Rightarrow> string" where
  "lstrip_chars cs s = dropWhile (\<lambda>c. c \<in> cs) s"

definition startswith :: "string \<Rightarrow> string \<Rightarrow> bool" where
  "startswith s p = (take (length p) s = p)"

definition endswith :: "string \<Rightarrow> string \<Rightarrow> bool" where
  "endswith s p = (length p \<le> length s \<and> drop (length s - length p) s = p)"

text \<open>\<^verbatim>\<open>sep.join(words)\<close>.\<close>

fun join_with :: "string \<Rightarrow> string list \<Rightarrow> string" where
  "join_with sep [] = []"
| "join_with sep [w] = w"
| "join_with sep (w # ws) = w @ sep @ join_with sep ws"

text \<open>\<^verbatim>\<open>str.lower\<close> on the code points below 256: A-Z, and the capital letters of Latin-1.\<close>

definition lower_char :: "char \<Rightarrow> char" where
  "lower_char c = (let n = (of_char c :: nat) in
     if (65 \<le> n \<and> n \<le> 90) \<or> (192 \<le> n \<and> n \<le> 222 \<and> n \<noteq> 215) then char_of (n + 32) else c)"

definition lower :: "string \<Rightarrow> string" where
  "lower s = map lower_char s"

text \<open>\<^verbatim>\<open>str.isdigit\<close> below 256 accepts 0-9 and the superscripts 1, 2, 3, which \<^verbatim>\<open>int\<close> refuses.\<close>

definition isdigit :: "char \<Rightarrow> bool" where
  "isdigit c = (let n = (of_char c :: nat) in (48 \<le> n \<and> n \<le> 57) \<or> n = 178 \<or> n = 179 \<or> n = 185)"

definition str_isdigit :: "string \<Rightarrow> bool" where
  "str_isdigit s = (s \<noteq> [] \<and> list_all isdigit s)"

definition ascii_digit :: "char \<Rightarrow> bool" where
  "ascii_digit c = (let n = (of_char c :: nat) in 48 \<le> n \<and> n \<le> 57)"

text \<open>\<^verbatim>\<open>int(s)\<close> on a string of digits; \<open>None\<close> is the \<^verbatim>\<open>ValueError\<close>.\<close>

definition int_of_str :: "string \<Rightarrow> nat option" where
  "int_of_str s = (if s \<noteq> [] \<and> list_all ascii_digit s
     then Some (foldl (\<lambda>a c. 10 * a + (of_char c - 48)) 0 s) else None)"

text \<open>\<^verbatim>\<open>"%d" % n\<close> and \<^verbatim>\<open>str(n)\<close> for a natural number.\<close>

definition digit_char :: "nat \<Rightarrow> char" where
  "digit_char d = ''0123456789'' ! d"

function decimal :: "nat \<Rightarrow> string" where
  "decimal n = (if n < 10 then [digit_char n] else decimal (n div 10) @ [digit_char (n mod 10)])"
  by pat_completeness auto
termination
  by (relation "measure id") auto

declare decimal.simps [simp del]

text \<open>Lexicographic comparison of strings by code point, Python's \<^verbatim>\<open>a >= b\<close>.\<close>

fun str_ge :: "string \<Rightarrow> string \<Rightarrow> bool" where
  "str_ge _ [] = True"
| "str_ge [] (_ # _) = False"
| "str_ge (a # as) (b # bs) =
     (if (of_char a :: nat) > of_char b then True
      else if (of_char a :: nat) < of_char b then False else str_ge as bs)"

text \<open>\<^verbatim>\<open>html.escape(s, quote=False)\<close>.\<close>

definition html_escape :: "string \<Rightarrow> string" where
  "html_escape s = concat (map (\<lambda>c.
     if c = CHR ''&'' then ''&amp;'' else if c = CHR ''<'' then ''&lt;''
     else if c = CHR ''>'' then ''&gt;'' else [c]) s)"

text \<open>\<^verbatim>\<open>s.encode('UTF-8')\<close> for code points below 256: two bytes from 128 on.\<close>

definition utf8_char :: "char \<Rightarrow> string" where
  "utf8_char c = (let n = (of_char c :: nat) in
     if n < 128 then [c] else [char_of (192 + n div 64), char_of (128 + n mod 64)])"

definition encode_utf8 :: "string \<Rightarrow> string" where
  "encode_utf8 s = concat (map utf8_char s)"

subsection \<open>The operating system, the library, and the state\<close>

text \<open>
  A file as \<^verbatim>\<open>open(path, 'rb')\<close> and \<^verbatim>\<open>os.fstat\<close> show it: the bytes that reading yields, the
  size and the modification time of the stat record (in whole seconds: both of its uses drop
  the fraction).
\<close>

record pyfile =
  content :: string
  st_size :: nat
  st_mtime :: int

text \<open>
  The filesystem as the handler observes it. \<open>open_rb\<close> and \<open>listdir\<close> return \<open>None\<close> where
  the call raises \<^verbatim>\<open>OSError\<close>.
\<close>

record fsys =
  isdir :: "string \<Rightarrow> bool"
  isfile :: "string \<Rightarrow> bool"
  open_rb :: "string \<Rightarrow> pyfile option"
  listdir :: "string \<Rightarrow> string list option"

text \<open>
  Library functions taken as parameters: \<^verbatim>\<open>sys.version\<close>, \<^verbatim>\<open>email.utils.formatdate\<close> (with
  \<open>None\<close> for the current time), \<^verbatim>\<open>repr\<close>, \<^verbatim>\<open>urllib.parse.unquote\<close> on a string that holds a
  percent sign, \<^verbatim>\<open>urlsplit\<close> (\<open>None\<close>: it raised \<^verbatim>\<open>ValueError\<close>) and \<^verbatim>\<open>urlunsplit\<close>,
  \<^verbatim>\<open>email.utils.parsedate_to_datetime\<close> (\<open>None\<close>: it raised; otherwise the date's fields
  read as seconds of UTC, and its zone offset if it has one), \<^verbatim>\<open>mimetypes.guess_type\<close>,
  \<^verbatim>\<open>sys.getfilesystemencoding\<close>, and the HTML text that \<^verbatim>\<open>list_directory\<close> builds from the
  directory's path, the request path and the names in it.
\<close>

record lib =
  sys_version :: string
  formatdate :: "int option \<Rightarrow> string"
  repr :: "string \<Rightarrow> string"
  unquote_escaped :: "string \<Rightarrow> string"
  urlsplit :: "string \<Rightarrow> (string \<times> string \<times> string \<times> string \<times> string) option"
  urlunsplit :: "string \<times> string \<times> string \<times> string \<times> string \<Rightarrow> string"
  parsedate_to_datetime :: "string \<Rightarrow> (int \<times> int option) option"
  mimetypes_guess_type :: "string \<Rightarrow> string option"
  getfilesystemencoding :: string
  listing_html :: "string \<Rightarrow> string \<Rightarrow> string list \<Rightarrow> string"

text \<open>
  What is written to the connection: \<^verbatim>\<open>flush_headers\<close> writes the joined header buffer in
  one call (kept here as its lines), everything else is body.
\<close>

datatype written = Head "string list" | Body string

fun wire :: "written list \<Rightarrow> string" where
  "wire [] = []"
| "wire (Head ls # ws) = concat ls @ wire ws"
| "wire (Body b # ws) = b @ wire ws"

text \<open>
  The state of the process and of one handler object. Process-wide: the class attribute
  \<^verbatim>\<open>extensions_map\<close> (a dictionary), the current working directory, the filesystem, and the
  lines written to \<^verbatim>\<open>sys.stdout\<close> and \<^verbatim>\<open>sys.stderr\<close>, the address of the listening
  socket while it is open, and what each finished connection was sent. Per handler: the attributes that \<^verbatim>\<open>BaseHTTPRequestHandler\<close>
  and \<^verbatim>\<open>SimpleHTTPRequestHandler\<close> set on \<^verbatim>\<open>self\<close>, and \<^verbatim>\<open>wfile\<close>.
\<close>

record state =
  extensions_map :: "string \<rightharpoonup> string"
  cwd :: string
  fs :: fsys
  stdout :: "string list"
  stderr :: "string list"
  listening :: "(string \<times> nat) option"
  sent :: "written list list"
  directory :: string
  command :: "string option"
  path :: string
  requestline :: string
  request_version :: string
  headers :: "(string \<times> string) list"
  close_connection :: bool
  headers_buffer :: "string list"
  wfile :: "written list"

subsection \<open>BaseHTTPRequestHandler: logging and the header buffer\<close>

definition protocol_version :: string where
  "protocol_version = ''HTTP/1.0''"

definition default_request_version :: string where
  "default_request_version = ''HTTP/0.9''"

definition server_version :: string where
  "server_version = ''SimpleHTTP/0.6''"

definition version_string :: "lib \<Rightarrow> string" where
  "version_string L = server_version @ '' '' @ sys_version L"

definition error_content_type :: string where
  "error_content_type = ''text/html;charset=utf-8''"

text \<open>
  \<^verbatim>\<open>responses\<close>: phrase and description of the status codes the handler uses
  (\<^verbatim>\<open>http.HTTPStatus\<close>).
\<close>

definition responses :: "nat \<Rightarrow> (string \<times> string) option" where
  "responses code =
    (if code = 100 then Some (''Continue'', ''Request received, please continue'')
     else if code = 200 then Some (''OK'', ''Request fulfilled, document follows'')
     else if code = 301 then Some (''Moved Permanently'', ''Object moved permanently -- see URI list'')
     else if code = 304 then Some (''Not Modified'', ''Document has not changed since given time'')
     else if code = 400 then Some (''Bad Request'', ''Bad request syntax or unsupported method'')
     else if code = 404 then Some (''Not Found'', ''Nothing matches the given URI'')
     else if code = 414 then Some (''Request-URI Too Long'', ''URI is too long'')
     else if code = 431 then Some (''Request Header Fields Too Large'',
       ''The server is unwilling to process the request because its header fields are too large'')
     else if code = 501 then Some (''Not Implemented'', ''Server does not support this operation'')
     else if code = 505 then Some (''HTTP Version Not Supported'', ''Cannot fulfill request'')
     else None)"

text \<open>
  \<^verbatim>\<open>log_message\<close> writes one line to \<^verbatim>\<open>sys.stderr\<close>; the model keeps the formatted message,
  without the address and time that prefix it.
\<close>

definition log_message :: "string \<Rightarrow> state \<Rightarrow> state" where
  "log_message msg s = s\<lparr>stderr := stderr s @ [msg]\<rparr>"

definition log_request :: "nat \<Rightarrow> state \<Rightarrow> state" where
  "log_request code s =
     log_message ([DQ] @ requestline s @ [DQ] @ '' '' @ decimal code @ '' -'') s"

definition log_error :: "string \<Rightarrow> state \<Rightarrow> state" where
  "log_error msg s = log_message msg s"

definition send_response_only :: "nat \<Rightarrow> string option \<Rightarrow> state \<Rightarrow> state" where
  "send_response_only code message s =
    (if request_version s \<noteq> ''HTTP/0.9'' then
       (let msg = (case message of
                     None \<Rightarrow> (case responses code of Some r \<Rightarrow> fst r | None \<Rightarrow> [])
                   | Some m \<Rightarrow> m)
        in s\<lparr>headers_buffer := headers_buffer s @
               [protocol_version @ '' '' @ decimal code @ '' '' @ msg @ CRLF]\<rparr>)
     else s)"

definition send_header :: "string \<Rightarrow> string \<Rightarrow> state \<Rightarrow> state" where
  "send_header keyword v s =
    (let s1 = (if request_version s \<noteq> ''HTTP/0.9''
               then s\<lparr>headers_buffer := headers_buffer s @ [keyword @ '': '' @ v @ CRLF]\<rparr>
               else s)
     in if lower keyword = ''connection'' then
          (if lower v = ''close'' then s1\<lparr>close_connection := True\<rparr>
           else if lower v = ''keep-alive'' then s1\<lparr>close_connection := False\<rparr>
           else s1)
        else s1)"

definition flush_headers :: "state \<Rightarrow> state" where
  "flush_headers s = s\<lparr>wfile := wfile s @ [Head (headers_buffer s)], headers_buffer := []\<rparr>"

text \<open>\<^verbatim>\<open>BaseHTTPRequestHandler.end_headers\<close>, reached by \<^verbatim>\<open>super().end_headers()\<close>.\<close>

definition base_end_headers :: "state \<Rightarrow> state" where
  "base_end_headers s =
    (if request_version s \<noteq> ''HTTP/0.9''
     then flush_headers (s\<lparr>headers_buffer := headers_buffer s @ [CRLF]\<rparr>)
     else s)"

subsection \<open>WASMHandler\<close>

text \<open>
  \<^verbatim>\<open>WASMHandler.end_headers\<close> (serve.py, lines 10 to 13):
  \<^verbatim>\<open>self.send_header('Access-Control-Allow-Origin', '*'); super().end_headers()\<close>.
\<close>

definition end_headers :: "state \<Rightarrow> state" where
  "end_headers s = base_end_headers (send_header ''Access-Control-Allow-Origin'' ''*'' s)"

text \<open>
  The class attribute as \<^verbatim>\<open>SimpleHTTPRequestHandler\<close> defines it, and serve.py line 16:
  \<^verbatim>\<open>WASMHandler.extensions_map['.wasm'] = 'application/wasm'\<close>.
\<close>

definition default_extensions_map :: "string \<rightharpoonup> string" where
  "default_extensions_map =
     [''.gz'' \<mapsto> ''application/gzip'', ''.Z'' \<mapsto> ''application/octet-stream'',
      ''.bz2'' \<mapsto> ''application/x-bzip2'', ''.xz'' \<mapsto> ''application/x-xz'']"

definition add_wasm_type :: "state \<Rightarrow> state" where
  "add_wasm_type s = s\<lparr>extensions_map := (extensions_map s)(''.wasm'' \<mapsto> ''application/wasm'')\<rparr>"

definition PORT :: nat where
  "PORT = 8080"

subsection \<open>BaseHTTPRequestHandler: responses\<close>

definition send_response :: "lib \<Rightarrow> nat \<Rightarrow> string option \<Rightarrow> state \<Rightarrow> state" where
  "send_response L code message s =
     send_header ''Date'' (formatdate L None)
       (send_header ''Server'' (version_string L)
         (send_response_only code message (log_request code s)))"

text \<open>\<^verbatim>\<open>error_message_format % {code, message, explain}\<close>, encoded as UTF-8.\<close>

definition error_body :: "nat \<Rightarrow> string \<Rightarrow> string \<Rightarrow> string" where
  "error_body code message explain = encode_utf8 (
     ''<!DOCTYPE HTML>'' @ [LF] @
     ''<html lang='' @ [DQ] @ ''en'' @ [DQ] @ ''>'' @ [LF] @
     ''    <head>'' @ [LF] @
     ''        <meta charset='' @ [DQ] @ ''utf-8'' @ [DQ] @ ''>'' @ [LF] @
     ''        <title>Error response</title>'' @ [LF] @
     ''    </head>'' @ [LF] @
     ''    <body>'' @ [LF] @
     ''        <h1>Error response</h1>'' @ [LF] @
     ''        <p>Error code: '' @ decimal code @ ''</p>'' @ [LF] @
     ''        <p>Message: '' @ html_escape message @ ''.</p>'' @ [LF] @
     ''        <p>Error code explanation: '' @ decimal code @ '' - '' @ html_escape explain @ ''.</p>'' @ [LF] @
     ''    </body>'' @ [LF] @
     ''</html>'' @ [LF])"

definition write_body :: "string \<Rightarrow> state \<Rightarrow> state" where
  "write_body b s = s\<lparr>wfile := wfile s @ [Body b]\<rparr>"

definition send_error :: "lib \<Rightarrow> nat \<Rightarrow> string option \<Rightarrow> string option \<Rightarrow> state \<Rightarrow> state" where
  "send_error L code message explain s =
    (let r = (case responses code of Some r \<Rightarrow> r | None \<Rightarrow> (''???'', ''???''));
         msg = (case message of None \<Rightarrow> fst r | Some m \<Rightarrow> m);
         expl = (case explain of None \<Rightarrow> snd r | Some e \<Rightarrow> e);
         s1 = log_error (''code '' @ decimal code @ '', message '' @ msg) s;
         s2 = send_response L code (Some msg) s1;
         s3 = send_header ''Connection'' ''close'' s2;
         has_body = (code \<ge> 200 \<and> code \<noteq> 204 \<and> code \<noteq> 205 \<and> code \<noteq> 304);
         body = error_body code msg expl;
         s4 = (if has_body
               then send_header ''Content-Length'' (decimal (length body))
                      (send_header ''Content-Type'' error_content_type s3)
               else s3);
         s5 = end_headers s4
     in if command s5 \<noteq> Some ''HEAD'' \<and> has_body \<and> body \<noteq> [] then write_body body s5 else s5)"

subsection \<open>BaseHTTPRequestHandler: reading a request\<close>

text \<open>
  One request as the handler reads it from \<^verbatim>\<open>rfile\<close>: the bytes that
  \<^verbatim>\<open>readline(65537)\<close> returns, and what \<^verbatim>\<open>http.client.parse_headers\<close> makes of the lines
  that follow (it raises \<^verbatim>\<open>LineTooLong\<close> or another \<^verbatim>\<open>HTTPException\<close>, or returns the
  headers).
\<close>

datatype header_result =
  LineTooLong string | HTTPException string | Headers "(string \<times> string) list"

record request =
  raw_requestline :: string
  header_block :: header_result

text \<open>\<^verbatim>\<open>Message.get(name, default)\<close> and \<^verbatim>\<open>name in message\<close>: names compare without case.\<close>

fun headers_get :: "(string \<times> string) list \<Rightarrow> string \<Rightarrow> string \<Rightarrow> string" where
  "headers_get [] name d = d"
| "headers_get ((k, v) # hs) name d = (if lower k = lower name then v else headers_get hs name d)"

definition headers_contains :: "(string \<times> string) list \<Rightarrow> string \<Rightarrow> bool" where
  "headers_contains hs name = list_ex (\<lambda>h. lower (fst h) = lower name) hs"

text \<open>\<^verbatim>\<open>s.split(sep, 1)[1]\<close>; \<open>None\<close> is the \<^verbatim>\<open>IndexError\<close> when there is no separator.\<close>

definition after_first :: "char \<Rightarrow> string \<Rightarrow> string option" where
  "after_first sep s = (case dropWhile (\<lambda>c. c \<noteq> sep) s of [] \<Rightarrow> None | _ # r \<Rightarrow> Some r)"

text \<open>
  The \<^verbatim>\<open>try\<close> block of \<^verbatim>\<open>parse_request\<close>: the text after \<^verbatim>\<open>HTTP/\<close> and the two numbers of
  the version; \<open>None\<close> where it raises \<^verbatim>\<open>ValueError\<close> or \<^verbatim>\<open>IndexError\<close>.
\<close>

definition parse_version :: "string \<Rightarrow> (string \<times> nat \<times> nat) option" where
  "parse_version version =
    (if \<not> startswith version ''HTTP/'' then None
     else case after_first (CHR ''/'') version of
       None \<Rightarrow> None
     | Some base_version_number \<Rightarrow>
        (let version_number = split_on (CHR ''.'') base_version_number in
         if length version_number \<noteq> 2 then None
         else if list_ex (\<lambda>component. \<not> str_isdigit component) version_number then None
         else if list_ex (\<lambda>component. length component > 10) version_number then None
         else case (int_of_str (version_number ! 0), int_of_str (version_number ! 1)) of
                (Some major, Some minor) \<Rightarrow> Some (base_version_number, major, minor)
              | _ \<Rightarrow> None))"

definition handle_expect_100 :: "state \<Rightarrow> state" where
  "handle_expect_100 s = end_headers (send_response_only 100 None s)"

text \<open>
  \<^verbatim>\<open>parse_request\<close>, the part that runs when the request line has three words or more:
  \<open>Inl\<close> where the method has sent an error and returns \<^verbatim>\<open>False\<close>.
\<close>

definition parse_request_version :: "lib \<Rightarrow> string list \<Rightarrow> state \<Rightarrow> state + state" where
  "parse_request_version L words s =
    (if length words \<ge> 3 then
       (let version = last words in
        case parse_version version of
          None \<Rightarrow> Inl (send_error L 400
                    (Some (''Bad request version ('' @ repr L version @ '')'')) None s)
        | Some (base_version_number, major, minor) \<Rightarrow>
           (let s1 = (if (major > 1 \<or> (major = 1 \<and> minor \<ge> 1)) \<and>
                         str_ge protocol_version ''HTTP/1.1''
                      then s\<lparr>close_connection := False\<rparr> else s)
            in if major \<ge> 2
               then Inl (send_error L 505
                      (Some (''Invalid HTTP version ('' @ base_version_number @ '')'')) None s1)
               else Inr (s1\<lparr>request_version := version\<rparr>)))
     else Inr s)"

text \<open>\<^verbatim>\<open>parse_request\<close>, from the headers on.\<close>

definition parse_request_headers :: "lib \<Rightarrow> request \<Rightarrow> state \<Rightarrow> bool \<times> state" where
  "parse_request_headers L rq s =
    (case header_block rq of
       LineTooLong err \<Rightarrow> (False, send_error L 431 (Some ''Line too long'') (Some err) s)
     | HTTPException err \<Rightarrow> (False, send_error L 431 (Some ''Too many headers'') (Some err) s)
     | Headers hs \<Rightarrow>
        (let s1 = s\<lparr>headers := hs\<rparr>;
             conntype = headers_get hs ''Connection'' [];
             s2 = (if lower conntype = ''close'' then s1\<lparr>close_connection := True\<rparr>
                   else if lower conntype = ''keep-alive'' \<and> str_ge protocol_version ''HTTP/1.1''
                   then s1\<lparr>close_connection := False\<rparr>
                   else s1);
             expect = headers_get hs ''Expect'' []
         in if lower expect = ''100-continue'' \<and> str_ge protocol_version ''HTTP/1.1'' \<and>
               str_ge (request_version s2) ''HTTP/1.1''
            then (True, handle_expect_100 s2)
            else (True, s2)))"

text \<open>
  In \<^verbatim>\<open>parse_request\<close>: a path that starts with two slashes is reduced to one leading slash
  (\<^verbatim>\<open>'/' + self.path.lstrip('/')\<close>).
\<close>

definition single_slash :: "string \<Rightarrow> string" where
  "single_slash p = (if startswith p ''//'' then ''/'' @ lstrip_chars {CHR ''/''} p else p)"

definition parse_request :: "lib \<Rightarrow> request \<Rightarrow> state \<Rightarrow> bool \<times> state" where
  "parse_request L rq s0 =
    (let rl = rstrip_chars {CR, LF} (raw_requestline rq);
         s = s0\<lparr>command := None, request_version := default_request_version,
                close_connection := True, requestline := rl\<rparr>;
         words = split_ws rl
     in if length words = 0 then (False, s)
        else case parse_request_version L words s of
          Inl s1 \<Rightarrow> (False, s1)
        | Inr s1 \<Rightarrow>
           if \<not> (2 \<le> length words \<and> length words \<le> 3)
           then (False, send_error L 400
                   (Some (''Bad request syntax ('' @ repr L rl @ '')'')) None s1)
           else (let cmd = words ! 0; p = words ! 1;
                     s2 = (if length words = 2 then s1\<lparr>close_connection := True\<rparr> else s1)
                 in if length words = 2 \<and> cmd \<noteq> ''GET''
                    then (False, send_error L 400
                            (Some (''Bad HTTP/0.9 request type ('' @ repr L cmd @ '')'')) None s2)
                    else parse_request_headers L rq
                           (s2\<lparr>command := Some cmd, path := single_slash p\<rparr>)))"

subsection \<open>posixpath and urllib.parse\<close>

text \<open>\<^verbatim>\<open>s.rfind(c)\<close>: the last index of the character, or -1.\<close>

definition rfind :: "char \<Rightarrow> string \<Rightarrow> int" where
  "rfind c s = (if c \<in> set s then int (length s) - 1 - int (length (takeWhile (\<lambda>x. x \<noteq> c) (rev s)))
                else - 1)"

text \<open>\<^verbatim>\<open>posixpath.join(a, b)\<close>.\<close>

definition path_join :: "string \<Rightarrow> string \<Rightarrow> string" where
  "path_join a b =
    (if startswith b ''/'' then b
     else if a = [] \<or> endswith a ''/'' then a @ b
     else a @ ''/'' @ b)"

text \<open>\<^verbatim>\<open>posixpath.dirname\<close>.\<close>

definition dirname :: "string \<Rightarrow> string" where
  "dirname p =
    (let i = nat (rfind (CHR ''/'') p + 1);
         head = take i p
     in if head \<noteq> [] \<and> head \<noteq> replicate (length head) (CHR ''/'')
        then rstrip_chars {CHR ''/''} head else head)"

text \<open>
  \<^verbatim>\<open>posixpath.splitext\<close>: the extension starts at the last dot of the last component, unless
  only dots precede it there.
\<close>

definition splitext :: "string \<Rightarrow> string \<times> string" where
  "splitext p =
    (let sepIndex = rfind (CHR ''/'') p;
         dotIndex = rfind (CHR ''.'') p
     in if dotIndex > sepIndex \<and>
           list_ex (\<lambda>c. c \<noteq> CHR ''.'') (take (nat (dotIndex - (sepIndex + 1))) (drop (nat (sepIndex + 1)) p))
        then (take (nat dotIndex) p, drop (nat dotIndex) p)
        else (p, []))"

text \<open>
  \<^verbatim>\<open>posixpath.normpath\<close>: the loop over the components, with \<open>new_comps\<close> as accumulator, and
  the function around it.
\<close>

fun normpath_comps :: "bool \<Rightarrow> string list \<Rightarrow> string list \<Rightarrow> string list" where
  "normpath_comps initial_slashes new_comps [] = new_comps"
| "normpath_comps initial_slashes new_comps (cmp # comps) =
    (if cmp = [] \<or> cmp = ''.'' then normpath_comps initial_slashes new_comps comps
     else if cmp \<noteq> ''..'' \<or> (\<not> initial_slashes \<and> new_comps = []) \<or>
             (new_comps \<noteq> [] \<and> last new_comps = ''..'')
     then normpath_comps initial_slashes (new_comps @ [cmp]) comps
     else if new_comps \<noteq> [] then normpath_comps initial_slashes (butlast new_comps) comps
     else normpath_comps initial_slashes new_comps comps)"

definition normpath :: "string \<Rightarrow> string" where
  "normpath p =
    (if p = [] then ''.''
     else
      (let initial_slashes =
             (if startswith p ''/''
              then (if startswith p ''//'' \<and> \<not> startswith p ''///'' then 2 else 1)
              else (0::nat));
           comps = normpath_comps (initial_slashes \<noteq> 0) [] (split_on (CHR ''/'') p);
           q = replicate initial_slashes (CHR ''/'') @ join_with ''/'' comps
       in if q = [] then ''.'' else q))"

text \<open>
  \<^verbatim>\<open>urllib.parse.unquote\<close> returns a string without a percent sign as it is; decoding the
  escapes of any other string is left to the parameter.
\<close>

definition unquote :: "lib \<Rightarrow> string \<Rightarrow> string" where
  "unquote L s = (if CHR ''%'' \<notin> set s then s else unquote_escaped L s)"

subsection \<open>SimpleHTTPRequestHandler\<close>

text \<open>
  \<^verbatim>\<open>translate_path\<close>: the request path without query and fragment, unquoted and normalised,
  its words joined to \<^verbatim>\<open>self.directory\<close> (the argument \<open>d\<close>) one by one; a word that has a directory part or is
  \<^verbatim>\<open>.\<close> or \<^verbatim>\<open>..\<close> is skipped.
\<close>

definition translate_word :: "string \<Rightarrow> string \<Rightarrow> string" where
  "translate_word acc word =
    (if dirname word \<noteq> [] \<or> word = ''.'' \<or> word = ''..'' then acc else path_join acc word)"

definition translate_path :: "lib \<Rightarrow> string \<Rightarrow> string \<Rightarrow> string" where
  "translate_path L d p0 =
    (let p1 = before_first (CHR ''?'') p0;
         p2 = before_first (CHR ''#'') p1;
         trailing_slash = endswith (rstrip p2) ''/'';
         p3 = normpath (unquote L p2);
         words = filter (\<lambda>w. w \<noteq> []) (split_on (CHR ''/'') p3);
         p4 = foldl translate_word d words
     in if trailing_slash then p4 @ ''/'' else p4)"

text \<open>\<^verbatim>\<open>guess_type\<close>: the extension's entry in \<^verbatim>\<open>extensions_map\<close>, as it is and in lower case.\<close>

definition guess_type :: "lib \<Rightarrow> state \<Rightarrow> string \<Rightarrow> string" where
  "guess_type L s p =
    (let ext = snd (splitext p) in
     case extensions_map s ext of
       Some t \<Rightarrow> t
     | None \<Rightarrow>
        (case extensions_map s (lower ext) of
           Some t \<Rightarrow> t
         | None \<Rightarrow>
            (case mimetypes_guess_type L p of
               Some guess \<Rightarrow> (if guess \<noteq> [] then guess else ''application/octet-stream'')
             | None \<Rightarrow> ''application/octet-stream'')))"

text \<open>
  Exceptions that leave a method. \<^verbatim>\<open>os.path.isdir\<close> and \<^verbatim>\<open>os.path.isfile\<close> answer
  \<^verbatim>\<open>False\<close> for a path with a null character, and \<^verbatim>\<open>open\<close> raises \<^verbatim>\<open>ValueError\<close> for it.
\<close>

datatype exn = ValueError | TypeError | OSError string | KeyboardInterrupt

definition os_path_isdir :: "state \<Rightarrow> string \<Rightarrow> bool" where
  "os_path_isdir s p = (NUL \<notin> set p \<and> isdir (fs s) p)"

definition os_path_isfile :: "state \<Rightarrow> string \<Rightarrow> bool" where
  "os_path_isfile s p = (NUL \<notin> set p \<and> isfile (fs s) p)"

definition py_open :: "state \<Rightarrow> string \<Rightarrow> exn + pyfile" where
  "py_open s p =
    (if NUL \<in> set p then Inl ValueError
     else case open_rb (fs s) p of None \<Rightarrow> Inl (OSError []) | Some f \<Rightarrow> Inr f)"

definition is_OSError :: "exn \<Rightarrow> bool" where
  "is_OSError e = (case e of OSError _ \<Rightarrow> True | _ \<Rightarrow> False)"

text \<open>The test of \<^verbatim>\<open>send_head\<close> that answers 304 for a file not modified since the given date.\<close>

definition not_modified :: "lib \<Rightarrow> (string \<times> string) list \<Rightarrow> pyfile \<Rightarrow> bool" where
  "not_modified L hs f =
    (headers_contains hs ''If-Modified-Since'' \<and>
     \<not> headers_contains hs ''If-None-Match'' \<and>
     (case parsedate_to_datetime L (headers_get hs ''If-Modified-Since'' []) of
        None \<Rightarrow> False
      | Some (ims, tz) \<Rightarrow> (tz = None \<or> tz = Some 0) \<and> st_mtime f \<le> ims))"

text \<open>
  \<^verbatim>\<open>send_head\<close> from \<^verbatim>\<open>ctype = self.guess_type(path)\<close> on. The result is the state and the file
  object to copy, given as the bytes that reading it yields.
\<close>

definition send_head_file :: "lib \<Rightarrow> string \<Rightarrow> state \<Rightarrow> (exn \<times> state) + (state \<times> string option)" where
  "send_head_file L p s =
    (let ctype = guess_type L s p in
     if endswith p ''/'' then Inr (send_error L 404 (Some ''File not found'') None s, None)
     else case py_open s p of
       Inl e \<Rightarrow> (if is_OSError e
                 then Inr (send_error L 404 (Some ''File not found'') None s, None)
                 else Inl (e, s))
     | Inr f \<Rightarrow>
        if not_modified L (headers s) f then Inr (end_headers (send_response L 304 None s), None)
        else Inr (end_headers
                   (send_header ''Last-Modified'' (formatdate L (Some (st_mtime f)))
                     (send_header ''Content-Length'' (decimal (st_size f))
                       (send_header ''Content-type'' ctype
                         (send_response L 200 None s)))),
                  Some (content f)))"

definition list_directory :: "lib \<Rightarrow> string \<Rightarrow> state \<Rightarrow> state \<times> string option" where
  "list_directory L p s =
    (case listdir (fs s) p of
       None \<Rightarrow> (send_error L 404 (Some ''No permission to list directory'') None s, None)
     | Some names \<Rightarrow>
        (let encoded = listing_html L p (path s) names in
         (end_headers
            (send_header ''Content-Length'' (decimal (length encoded))
              (send_header ''Content-type'' (''text/html; charset='' @ getfilesystemencoding L)
                (send_response L 200 None s))),
          Some encoded)))"

definition send_head :: "lib \<Rightarrow> state \<Rightarrow> (exn \<times> state) + (state \<times> string option)" where
  "send_head L s =
    (let p = translate_path L (directory s) (path s) in
     if os_path_isdir s p then
       (case urlsplit L (path s) of
          None \<Rightarrow> Inl (ValueError, s)
        | Some (scheme, netloc, upath, query, fragment) \<Rightarrow>
           if \<not> endswith upath ''/'' then
             Inr (end_headers
                    (send_header ''Content-Length'' ''0''
                      (send_header ''Location''
                         (urlunsplit L (scheme, netloc, upath @ ''/'', query, fragment))
                        (send_response L 301 None s))),
                  None)
           else if os_path_isfile s (path_join p ''index.html'')
                then send_head_file L (path_join p ''index.html'') s
           else if os_path_isfile s (path_join p ''index.htm'')
                then send_head_file L (path_join p ''index.htm'') s
           else Inr (list_directory L p s))
     else send_head_file L p s)"

text \<open>
  \<^verbatim>\<open>copyfile\<close> is \<^verbatim>\<open>shutil.copyfileobj\<close>: it writes what it reads, in blocks, and nothing for
  an empty file. The model writes the blocks as one.
\<close>

definition copyfile :: "string \<Rightarrow> state \<Rightarrow> state" where
  "copyfile data s = (if data = [] then s else write_body data s)"

definition do_GET :: "lib \<Rightarrow> state \<Rightarrow> (exn \<times> state) + state" where
  "do_GET L s =
    (case send_head L s of
       Inl e \<Rightarrow> Inl e
     | Inr (s1, None) \<Rightarrow> Inr s1
     | Inr (s1, Some data) \<Rightarrow> Inr (copyfile data s1))"

definition do_HEAD :: "lib \<Rightarrow> state \<Rightarrow> (exn \<times> state) + state" where
  "do_HEAD L s =
    (case send_head L s of
       Inl e \<Rightarrow> Inl e
     | Inr (s1, _) \<Rightarrow> Inr s1)"

subsection \<open>Handling a connection\<close>

text \<open>
  \<^verbatim>\<open>handle_one_request\<close>. The handler has the methods \<^verbatim>\<open>do_GET\<close> and \<^verbatim>\<open>do_HEAD\<close> and no
  other whose name starts with \<^verbatim>\<open>do_\<close>. After \<^verbatim>\<open>parse_request\<close> has returned \<^verbatim>\<open>True\<close> the
  command is set; \<^verbatim>\<open>'do_' + None\<close> would raise \<^verbatim>\<open>TypeError\<close>.
\<close>

definition handle_one_request :: "lib \<Rightarrow> request \<Rightarrow> state \<Rightarrow> (exn \<times> state) + state" where
  "handle_one_request L rq s =
    (if length (raw_requestline rq) > 65536
     then Inr (send_error L 414 None None
                 (s\<lparr>requestline := [], request_version := [], command := Some []\<rparr>))
     else if raw_requestline rq = [] then Inr (s\<lparr>close_connection := True\<rparr>)
     else case parse_request L rq s of
       (False, s1) \<Rightarrow> Inr s1
     | (True, s1) \<Rightarrow>
        (case command s1 of
           None \<Rightarrow> Inl (TypeError, s1)
         | Some cmd \<Rightarrow>
            if cmd = ''GET'' then do_GET L s1
            else if cmd = ''HEAD'' then do_HEAD L s1
            else Inr (send_error L 501
                        (Some (''Unsupported method ('' @ repr L cmd @ '')'')) None s1)))"

text \<open>
  \<^verbatim>\<open>handle\<close>: one request, and further ones while \<^verbatim>\<open>close_connection\<close> is false. A connection
  is the list of requests the client sends on it; when they are used up, \<^verbatim>\<open>readline\<close>
  returns no bytes and \<^verbatim>\<open>handle_one_request\<close> closes.
\<close>

fun handle_requests :: "lib \<Rightarrow> request list \<Rightarrow> state \<Rightarrow> (exn \<times> state) + state" where
  "handle_requests L [] s = Inr (s\<lparr>close_connection := True\<rparr>)"
| "handle_requests L (rq # rqs) s =
    (case handle_one_request L rq s of
       Inl e \<Rightarrow> Inl e
     | Inr s1 \<Rightarrow> if close_connection s1 then Inr s1 else handle_requests L rqs s1)"

definition handle :: "lib \<Rightarrow> request list \<Rightarrow> state \<Rightarrow> (exn \<times> state) + state" where
  "handle L conn s = handle_requests L conn (s\<lparr>close_connection := True\<rparr>)"

text \<open>
  \<^verbatim>\<open>finish_request\<close> creates the handler: \<^verbatim>\<open>WASMHandler.__init__\<close> passes its arguments on,
  \<^verbatim>\<open>SimpleHTTPRequestHandler.__init__\<close> sets \<^verbatim>\<open>directory\<close> to \<^verbatim>\<open>os.getcwd()\<close>, and
  \<^verbatim>\<open>BaseRequestHandler.__init__\<close> runs \<^verbatim>\<open>setup\<close>, \<^verbatim>\<open>handle\<close> and \<^verbatim>\<open>finish\<close>.
\<close>

definition new_handler :: "state \<Rightarrow> state" where
  "new_handler s = s\<lparr>directory := cwd s, command := None, path := [], requestline := [],
     request_version := [], headers := [], close_connection := True, headers_buffer := [],
     wfile := []\<rparr>"

definition finish_request :: "lib \<Rightarrow> request list \<Rightarrow> state \<Rightarrow> (exn \<times> state) + state" where
  "finish_request L conn s = handle L conn (new_handler s)"

subsection \<open>socketserver and the script\<close>

text \<open>
  \<^verbatim>\<open>shutdown_request\<close> closes the connection: what the handler wrote is what the client was
  sent. \<^verbatim>\<open>handle_error\<close> prints a traceback to \<^verbatim>\<open>sys.stderr\<close>.
\<close>

definition shutdown_request :: "state \<Rightarrow> state" where
  "shutdown_request s = s\<lparr>sent := sent s @ [wfile s]\<rparr>"

definition handle_error :: "state \<Rightarrow> state" where
  "handle_error s = s\<lparr>stderr := stderr s @ [''Exception occurred during processing of request'']\<rparr>"

definition is_Exception :: "exn \<Rightarrow> bool" where
  "is_Exception e = (e \<noteq> KeyboardInterrupt)"

text \<open>
  \<^verbatim>\<open>_handle_request_noblock\<close> with \<^verbatim>\<open>process_request\<close>: an \<^verbatim>\<open>Exception\<close> of the handler is
  reported and dropped, anything else is raised again.
\<close>

definition handle_request_noblock :: "lib \<Rightarrow> request list \<Rightarrow> state \<Rightarrow> (exn \<times> state) + state" where
  "handle_request_noblock L conn s =
    (case finish_request L conn s of
       Inr s1 \<Rightarrow> Inr (shutdown_request s1)
     | Inl (e, s1) \<Rightarrow>
        if is_Exception e then Inr (shutdown_request (handle_error s1))
        else Inl (e, shutdown_request s1))"

text \<open>
  What happens to the running server: a client connects, or the process is interrupted
  (\<^verbatim>\<open>KeyboardInterrupt\<close> is raised in the main thread, which is inside \<^verbatim>\<open>serve_forever\<close>).
\<close>

datatype event = Connection "request list" | Interrupt

text \<open>
  \<^verbatim>\<open>serve_forever\<close>: the script never calls \<^verbatim>\<open>shutdown\<close>, so the loop ends only by an
  exception. \<open>Inr\<close> is the server still in its loop when the events are used up.
\<close>

fun serve_forever :: "lib \<Rightarrow> event list \<Rightarrow> state \<Rightarrow> (exn \<times> state) + state" where
  "serve_forever L [] s = Inr s"
| "serve_forever L (Interrupt # evs) s = Inl (KeyboardInterrupt, s)"
| "serve_forever L (Connection conn # evs) s =
    (case handle_request_noblock L conn s of
       Inl e \<Rightarrow> Inl e
     | Inr s1 \<Rightarrow> serve_forever L evs s1)"

text \<open>
  \<^verbatim>\<open>TCPServer.__init__\<close> binds and listens; when \<^verbatim>\<open>bind\<close> raises, it closes the socket and
  raises again. \<open>sock_bind\<close> is the operating system's answer for an address: \<open>None\<close>, or the
  message of the \<^verbatim>\<open>OSError\<close>.
\<close>

definition TCPServer_init ::
  "(string \<times> nat \<Rightarrow> string option) \<Rightarrow> string \<times> nat \<Rightarrow> state \<Rightarrow> (exn \<times> state) + state" where
  "TCPServer_init sock_bind server_address s =
    (case sock_bind server_address of
       Some err \<Rightarrow> Inl (OSError err, s\<lparr>listening := None\<rparr>)
     | None \<Rightarrow> Inr (s\<lparr>listening := Some server_address\<rparr>))"

definition server_close :: "state \<Rightarrow> state" where
  "server_close s = s\<lparr>listening := None\<rparr>"

definition print :: "string \<Rightarrow> state \<Rightarrow> state" where
  "print line s = s\<lparr>stdout := stdout s @ [line]\<rparr>"

text \<open>
  How the interpreter ends on an exception that nothing catches: the traceback goes to
  \<^verbatim>\<open>sys.stderr\<close> and the exit status is 1; for \<^verbatim>\<open>KeyboardInterrupt\<close> the process ends by
  \<^verbatim>\<open>SIGINT\<close>, which a shell reports as 128 + 2.
\<close>

datatype run = Serving state | Exited nat state

definition exit_status :: "exn \<Rightarrow> nat" where
  "exit_status e = (if e = KeyboardInterrupt then 130 else 1)"

definition traceback :: "exn \<Rightarrow> string" where
  "traceback e =
    ''Traceback (most recent call last): '' @
    (case e of ValueError \<Rightarrow> ''ValueError'' | TypeError \<Rightarrow> ''TypeError''
     | OSError err \<Rightarrow> ''OSError: '' @ err | KeyboardInterrupt \<Rightarrow> ''KeyboardInterrupt'')"

definition uncaught :: "exn \<Rightarrow> state \<Rightarrow> run" where
  "uncaught e s = Exited (exit_status e) (s\<lparr>stderr := stderr s @ [traceback e]\<rparr>)"

text \<open>The process before the script runs, in directory \<open>d\<close> on filesystem \<open>F\<close>.\<close>

definition initial :: "fsys \<Rightarrow> string \<Rightarrow> state" where
  "initial F d = \<lparr>extensions_map = default_extensions_map, cwd = d, fs = F, stdout = [],
     stderr = [], listening = None, sent = [], directory = [], command = None, path = [],
     requestline = [], request_version = [], headers = [], close_connection = True,
     headers_buffer = [], wfile = []\<rparr>"

text \<open>
  serve.py, lines 16 to 21: the MIME type is added, the server is created in a \<^verbatim>\<open>with\<close>
  statement (whose exit calls \<^verbatim>\<open>server_close\<close>), the address is printed, and the server
  serves.
\<close>

definition main ::
  "lib \<Rightarrow> (string \<times> nat \<Rightarrow> string option) \<Rightarrow> fsys \<Rightarrow> string \<Rightarrow> event list \<Rightarrow> run" where
  "main L sock_bind F d evs =
    (let s1 = add_wasm_type (initial F d) in
     case TCPServer_init sock_bind ([], PORT) s1 of
       Inl (e, s2) \<Rightarrow> uncaught e s2
     | Inr s2 \<Rightarrow>
        (let s3 = print (''Serving at http://localhost:'' @ decimal PORT) s2 in
         case serve_forever L evs s3 of
           Inl (e, s4) \<Rightarrow> uncaught e (server_close s4)
         | Inr s4 \<Rightarrow> Serving s4))"

section \<open>Properties\<close>

subsection \<open>Vocabulary of the statements\<close>

definition acao_line :: string where
  "acao_line = ''Access-Control-Allow-Origin: *'' @ CRLF"

text \<open>A header block that was written carries the header; a body write has none to carry.\<close>

definition has_acao :: "written \<Rightarrow> bool" where
  "has_acao w = (case w of Head ls \<Rightarrow> acao_line \<in> set ls | Body b \<Rightarrow> True)"

text \<open>
  What a handler method may do to the state: it leaves the filesystem, the working
  directory, the MIME map, \<^verbatim>\<open>stdout\<close>, the listening socket and the finished connections as
  they are, and it adds writes to \<^verbatim>\<open>wfile\<close>, each header block among them with the header.
\<close>

definition extends :: "state \<Rightarrow> state \<Rightarrow> bool" where
  "extends s s' =
    (fs s' = fs s \<and> cwd s' = cwd s \<and> extensions_map s' = extensions_map s \<and>
     stdout s' = stdout s \<and> listening s' = listening s \<and> sent s' = sent s \<and>
     directory s' = directory s \<and>
     (\<exists>ws. wfile s' = wfile s @ ws \<and> list_all has_acao ws))"

definition run_state :: "run \<Rightarrow> state" where
  "run_state r = (case r of Serving s \<Rightarrow> s | Exited n s \<Rightarrow> s)"

text \<open>The state a method leaves behind, whether it returned or raised.\<close>

definition result_state :: "(exn \<times> state) + state \<Rightarrow> state" where
  "result_state r = (case r of Inl (e, s) \<Rightarrow> s | Inr s \<Rightarrow> s)"

definition head_state :: "(exn \<times> state) + (state \<times> string option) \<Rightarrow> state" where
  "head_state r = (case r of Inl (e, s) \<Rightarrow> s | Inr (s, f) \<Rightarrow> s)"

text \<open>
  What the serving loop may do to the state: the same frame, with finished connections added
  whose header blocks all carry the header.
\<close>

definition serves :: "state \<Rightarrow> state \<Rightarrow> bool" where
  "serves s s' =
    (fs s' = fs s \<and> cwd s' = cwd s \<and> extensions_map s' = extensions_map s \<and>
     stdout s' = stdout s \<and> listening s' = listening s \<and>
     (\<exists>outs. sent s' = sent s @ outs \<and> list_all (list_all has_acao) outs))"

text \<open>
  The first thing written is a header block, unless the request is handled as HTTP/0.9 or
  nothing is written at all; and the same with something written.
\<close>

definition headed :: "state \<Rightarrow> bool" where
  "headed s = (request_version s = ''HTTP/0.9'' \<or> wfile s = [] \<or> (\<exists>ls rest. wfile s = Head ls # rest))"

definition answered :: "state \<Rightarrow> bool" where
  "answered s = (request_version s = ''HTTP/0.9'' \<or> (\<exists>ls rest. wfile s = Head ls # rest))"


definition file_response :: "lib \<Rightarrow> string \<Rightarrow> pyfile \<Rightarrow> written list" where
  "file_response L ctype f =
    Head [''HTTP/1.0 200 OK'' @ CRLF,
          ''Server: '' @ version_string L @ CRLF,
          ''Date: '' @ formatdate L None @ CRLF,
          ''Content-type: '' @ ctype @ CRLF,
          ''Content-Length: '' @ decimal (st_size f) @ CRLF,
          ''Last-Modified: '' @ formatdate L (Some (st_mtime f)) @ CRLF,
          acao_line, CRLF]
    # (if content f = [] then [] else [Body (content f)])"

text \<open>A name of one path component: not empty, without a slash, and neither dot nor dot-dot.\<close>

definition plain_name :: "string \<Rightarrow> bool" where
  "plain_name w = (w \<noteq> [] \<and> CHR ''/'' \<notin> set w \<and> w \<noteq> ''.'' \<and> w \<noteq> ''..'')"

subsection \<open>An example environment\<close>

definition example_lib :: lib where
  "example_lib = \<lparr>sys_version = ''Python/3.11.10'',
     formatdate = (\<lambda>t. case t of None \<Rightarrow> ''Wed, 04 Nov 2026 12:00:00 GMT''
                        | Some _ \<Rightarrow> ''Thu, 01 Jan 2026 00:00:00 GMT''),
     repr = (\<lambda>s. [CHR 0x27] @ s @ [CHR 0x27]),
     unquote_escaped = (\<lambda>s. s),
     urlsplit = (\<lambda>p. Some ([], [], before_first (CHR ''?'') p, [], [])),
     urlunsplit = (\<lambda>(scheme, netloc, upath, query, fragment). upath),
     parsedate_to_datetime =
       (\<lambda>s. if s = ''Thu, 01 Jan 2026 00:00:00 GMT'' then Some (1767225600, Some 0) else None),
     mimetypes_guess_type = (\<lambda>p. None),
     getfilesystemencoding = ''utf-8'',
     listing_html = (\<lambda>p q names. concat names)\<rparr>"

text \<open>
  A root directory \<^verbatim>\<open>/srv\<close> with the files \<^verbatim>\<open>app.wasm\<close> and \<^verbatim>\<open>etc/passwd\<close>, both last
  modified on 1 January 2026.
\<close>

definition example_fs :: fsys where
  "example_fs = \<lparr>
     isdir = (\<lambda>p. p = ''/srv'' \<or> p = ''/srv/'' \<or> p = ''/srv/etc''),
     isfile = (\<lambda>p. p = ''/srv/app.wasm'' \<or> p = ''/srv/etc/passwd''),
     open_rb = (\<lambda>p.
       if p = ''/srv/app.wasm''
       then Some \<lparr>content = ''wasm'', st_size = 4, st_mtime = 1767225600\<rparr>
       else if p = ''/srv/etc/passwd''
       then Some \<lparr>content = ''demo'', st_size = 4, st_mtime = 1767225600\<rparr>
       else None),
     listdir = (\<lambda>p. if p = ''/srv'' \<or> p = ''/srv/'' then Some [''app.wasm'', ''etc''] else None)\<rparr>"

definition port_free :: "string \<times> nat \<Rightarrow> string option" where
  "port_free a = None"

definition port_in_use :: "string \<times> nat \<Rightarrow> string option" where
  "port_in_use a = Some ''[Errno 98] Address already in use''"

definition example_request :: "string \<Rightarrow> (string \<times> string) list \<Rightarrow> request" where
  "example_request l hs = \<lparr>raw_requestline = l @ CRLF, header_block = Headers hs\<rparr>"


subsection \<open>Evaluation of constants\<close>

lemma decimal_PORT: "decimal 8080 = ''8080''"
  by (simp add: decimal.simps [of 8080] decimal.simps [of 808] decimal.simps [of 80]
      decimal.simps [of 8] digit_char_def)


subsection \<open>Exceptions of the handler never end the serving loop\<close>

lemma handle_one_request_exn:
  "handle_one_request L rq s = Inl (e, s1) \<Longrightarrow> is_Exception e"
  by (auto simp: handle_one_request_def do_GET_def do_HEAD_def send_head_def send_head_file_def
        py_open_def is_Exception_def is_OSError_def Let_def
      split: if_splits prod.splits option.splits sum.splits bool.splits exn.splits)

lemma handle_requests_exn:
  "handle_requests L conn s = Inl (e, s1) \<Longrightarrow> is_Exception e"
proof (induction conn arbitrary: s)
  case Nil
  then show ?case by simp
next
  case (Cons rq rqs)
  then show ?case
    by (auto split: sum.splits if_splits dest: handle_one_request_exn)
qed

lemma noblock_returns:
  "\<exists>s1. handle_request_noblock L conn s = Inr s1"
  by (auto simp: handle_request_noblock_def finish_request_def handle_def
      split: sum.splits dest: handle_requests_exn)


subsection \<open>What the handler and the loop leave unchanged\<close>

named_theorems extends_intros

lemma extends_refl [extends_intros]: "extends s s"
  by (simp add: extends_def)

lemma extends_trans: "extends s s1 \<Longrightarrow> extends s1 s2 \<Longrightarrow> extends s s2"
  by (auto simp: extends_def)

lemma extends_fields [extends_intros]:
  "extends s s' \<Longrightarrow> extends s (s'\<lparr>command := c\<rparr>)"
  "extends s s' \<Longrightarrow> extends s (s'\<lparr>path := p\<rparr>)"
  "extends s s' \<Longrightarrow> extends s (s'\<lparr>requestline := rl\<rparr>)"
  "extends s s' \<Longrightarrow> extends s (s'\<lparr>request_version := v\<rparr>)"
  "extends s s' \<Longrightarrow> extends s (s'\<lparr>headers := hs\<rparr>)"
  "extends s s' \<Longrightarrow> extends s (s'\<lparr>close_connection := b\<rparr>)"
  "extends s s' \<Longrightarrow> extends s (s'\<lparr>headers_buffer := buf\<rparr>)"
  "extends s s' \<Longrightarrow> extends s (s'\<lparr>stderr := err\<rparr>)"
  by (simp_all add: extends_def)

lemma extends_log [extends_intros]:
  "extends s s' \<Longrightarrow> extends s (log_message m s')"
  "extends s s' \<Longrightarrow> extends s (log_request code s')"
  "extends s s' \<Longrightarrow> extends s (log_error m s')"
  by (simp_all add: log_request_def log_error_def log_message_def extends_def)

lemma extends_send_response_only [extends_intros]:
  "extends s s' \<Longrightarrow> extends s (send_response_only code m s')"
  by (simp add: send_response_only_def extends_def)

lemma extends_send_header [extends_intros]:
  "extends s s' \<Longrightarrow> extends s (send_header k v s')"
  by (simp add: send_header_def extends_def Let_def)

lemma lower_acao: "lower ''Access-Control-Allow-Origin'' \<noteq> ''connection''"
  by (simp add: lower_def)

lemma end_headers_eq:
  "end_headers s =
    (if request_version s \<noteq> ''HTTP/0.9''
     then s\<lparr>wfile := wfile s @ [Head (headers_buffer s @ [acao_line, CRLF])], headers_buffer := []\<rparr>
     else s)"
  by (simp add: end_headers_def base_end_headers_def send_header_def flush_headers_def
      lower_acao acao_line_def Let_def)

lemma extends_end_headers [extends_intros]:
  "extends s s' \<Longrightarrow> extends s (end_headers s')"
  by (auto simp: end_headers_eq extends_def has_acao_def)

lemma extends_write_body [extends_intros]:
  "extends s s' \<Longrightarrow> extends s (write_body b s')"
  "extends s s' \<Longrightarrow> extends s (copyfile b s')"
  by (auto simp: write_body_def copyfile_def extends_def has_acao_def)

lemma extends_send_response [extends_intros]:
  "extends s s' \<Longrightarrow> extends s (send_response L code m s')"
  unfolding send_response_def by (intro extends_intros)

lemma extends_send_error [extends_intros]:
  "extends s s' \<Longrightarrow> extends s (send_error L code m e s')"
  unfolding send_error_def Let_def
  by (simp only: if_distrib [of "extends s"] if_distrib [of end_headers] split: if_splits)
     (intro conjI impI extends_intros; assumption)


lemma extends_handle_expect_100 [extends_intros]:
  "extends s s' \<Longrightarrow> extends s (handle_expect_100 s')"
  unfolding handle_expect_100_def by (intro extends_intros)

lemma extends_parse_request_version:
  "extends s s0 \<Longrightarrow> parse_request_version L ws s0 = r \<Longrightarrow>
     extends s (case r of Inl s' \<Rightarrow> s' | Inr s' \<Rightarrow> s')"
  unfolding parse_request_version_def Let_def
  by (auto split: if_splits option.splits prod.splits intro!: extends_intros)

lemma extends_parse_request_headers:
  "extends s s0 \<Longrightarrow> extends s (snd (parse_request_headers L rq s0))"
  unfolding parse_request_headers_def Let_def
  by (auto split: header_result.splits if_splits intro!: extends_intros)

lemma extends_parse_request:
  "extends s s0 \<Longrightarrow> extends s (snd (parse_request L rq s0))"
  unfolding parse_request_def Let_def
  using extends_parse_request_version [of s _ L _ ]
  by (auto split: sum.splits if_splits
      intro!: extends_intros extends_parse_request_headers
      dest!: extends_parse_request_version [where s = s and L = L, rotated])


lemma extends_send_head_file:
  "extends s s0 \<Longrightarrow> extends s (head_state (send_head_file L p s0))"
  unfolding send_head_file_def Let_def head_state_def
  by (auto split: sum.splits if_splits intro!: extends_intros)

lemma extends_list_directory:
  "extends s s0 \<Longrightarrow> list_directory L p s0 = (s1, f) \<Longrightarrow> extends s s1"
  unfolding list_directory_def Let_def
  by (auto split: option.splits intro!: extends_intros)

lemma extends_send_head:
  "extends s s0 \<Longrightarrow> extends s (head_state (send_head L s0))"
  unfolding send_head_def Let_def
  by (auto split: option.splits prod.splits if_splits
      intro!: extends_intros extends_send_head_file
      simp: head_state_def [of "Inl _"] head_state_def [of "Inr _"]
      dest: extends_list_directory)

lemma extends_do_GET:
  "extends s s0 \<Longrightarrow> extends s (result_state (do_GET L s0))"
  using extends_send_head [of s s0 L]
  unfolding do_GET_def head_state_def result_state_def
  by (auto split: sum.splits option.splits prod.splits intro!: extends_intros)

lemma extends_do_HEAD:
  "extends s s0 \<Longrightarrow> extends s (result_state (do_HEAD L s0))"
  using extends_send_head [of s s0 L]
  unfolding do_HEAD_def head_state_def result_state_def
  by (auto split: sum.splits option.splits prod.splits intro!: extends_intros)

lemma extends_handle_one_request:
  "extends s s0 \<Longrightarrow> extends s (result_state (handle_one_request L rq s0))"
  using extends_parse_request [of s s0 L rq]
  unfolding handle_one_request_def
  by (auto split: prod.splits bool.splits option.splits
      intro!: extends_intros extends_do_GET extends_do_HEAD
      simp: result_state_def [of "Inl _"] result_state_def [of "Inr _"])

lemma extends_handle_requests:
  "extends s s0 \<Longrightarrow> extends s (result_state (handle_requests L conn s0))"
proof (induction conn arbitrary: s0)
  case Nil
  then show ?case
    by (auto simp: result_state_def intro!: extends_intros)
next
  case (Cons rq rqs)
  from Cons.prems have step: "extends s (result_state (handle_one_request L rq s0))"
    by (rule extends_handle_one_request)
  show ?case
  proof (cases "handle_one_request L rq s0")
    case (Inl a)
    with step show ?thesis by (simp add: result_state_def)
  next
    case (Inr s1)
    with step have s1: "extends s s1" by (simp add: result_state_def)
    show ?thesis
    proof (cases "close_connection s1")
      case True
      with Inr s1 show ?thesis by (simp add: result_state_def)
    next
      case False
      with Inr Cons.IH [OF s1] show ?thesis by simp
    qed
  qed
qed

lemma extends_finish_request:
  "extends (new_handler s) (result_state (finish_request L conn s))"
  unfolding finish_request_def handle_def
  by (intro extends_handle_requests extends_intros)


lemma serves_refl: "serves s s"
  by (simp add: serves_def)

lemma serves_trans: "serves s s1 \<Longrightarrow> serves s1 s2 \<Longrightarrow> serves s s2"
  by (auto simp: serves_def)

lemma serves_noblock:
  "serves s (result_state (handle_request_noblock L conn s)) \<and>
   length (sent (result_state (handle_request_noblock L conn s))) = Suc (length (sent s))"
proof -
  define r where "r = finish_request L conn s"
  have ext: "extends (new_handler s) (result_state r)"
    unfolding r_def by (rule extends_finish_request)
  show ?thesis
  proof (cases r)
    case (Inl a)
    obtain e s1 where a: "a = (e, s1)" by (cases a)
    with Inl ext have "extends (new_handler s) s1" by (simp add: result_state_def)
    with Inl a show ?thesis
      unfolding handle_request_noblock_def r_def [symmetric]
      by (auto simp: result_state_def serves_def extends_def new_handler_def
          shutdown_request_def handle_error_def)
  next
    case (Inr s1)
    with ext have "extends (new_handler s) s1" by (simp add: result_state_def)
    with Inr show ?thesis
      unfolding handle_request_noblock_def r_def [symmetric]
      by (auto simp: result_state_def serves_def extends_def new_handler_def
          shutdown_request_def)
  qed
qed

lemma serves_serve_forever:
  "serves s (result_state (serve_forever L evs s))"
proof (induction L evs s rule: serve_forever.induct)
  case (1 L s)
  then show ?case by (simp add: result_state_def serves_refl)
next
  case (2 L evs s)
  then show ?case by (simp add: result_state_def serves_refl)
next
  case (3 L conn evs s)
  obtain s1 where s1: "handle_request_noblock L conn s = Inr s1"
    using noblock_returns by blast
  with serves_noblock [of s L conn] have "serves s s1"
    by (simp add: result_state_def)
  moreover from 3 s1 have "serves s1 (result_state (serve_forever L evs s1))"
    by simp
  ultimately show ?case using s1 by (auto intro: serves_trans)
qed


lemma main_unfold:
  "main L sock_bind F d evs =
    (case sock_bind ([], 8080) of
       Some err \<Rightarrow> Exited 1 ((add_wasm_type (initial F d))
                     \<lparr>listening := None, stderr := [traceback (OSError err)]\<rparr>)
     | None \<Rightarrow>
        (case serve_forever L evs ((add_wasm_type (initial F d))
                \<lparr>listening := Some ([], 8080), stdout := [''Serving at http://localhost:8080'']\<rparr>) of
           Inl (e, s) \<Rightarrow> uncaught e (server_close s)
         | Inr s \<Rightarrow> Serving s))"
  by (simp add: main_def PORT_def TCPServer_init_def uncaught_def exit_status_def
      add_wasm_type_def initial_def print_def Let_def decimal_PORT split: option.splits)

subsection \<open>A response starts with its header block\<close>

named_theorems headed_intros

lemma answered_headed: "answered s \<Longrightarrow> headed s"
  by (auto simp: answered_def headed_def)

lemma headed_fields [headed_intros]:
  "headed s \<Longrightarrow> headed (s\<lparr>command := c\<rparr>)"
  "headed s \<Longrightarrow> headed (s\<lparr>path := p\<rparr>)"
  "headed s \<Longrightarrow> headed (s\<lparr>requestline := rl\<rparr>)"
  "headed s \<Longrightarrow> headed (s\<lparr>headers := hs\<rparr>)"
  "headed s \<Longrightarrow> headed (s\<lparr>close_connection := b\<rparr>)"
  "headed s \<Longrightarrow> headed (log_message m s)"
  "headed s \<Longrightarrow> headed (log_request code s)"
  "headed s \<Longrightarrow> headed (log_error m s)"
  "headed s \<Longrightarrow> headed (send_response_only code msg s)"
  "headed s \<Longrightarrow> headed (send_header k v s)"
  by (auto simp: headed_def log_request_def log_error_def log_message_def
      send_response_only_def send_header_def Let_def)

lemma headed_send_response [headed_intros]:
  "headed s \<Longrightarrow> headed (send_response L code m s)"
  unfolding send_response_def by (intro headed_intros)

lemma answered_end_headers: "headed s \<Longrightarrow> answered (end_headers s)"
  by (auto simp: headed_def answered_def end_headers_eq)

lemma headed_end_headers [headed_intros]: "headed s \<Longrightarrow> headed (end_headers s)"
  by (rule answered_headed [OF answered_end_headers])

lemma answered_write_body:
  "answered s \<Longrightarrow> answered (write_body b s)"
  "answered s \<Longrightarrow> answered (copyfile b s)"
  by (auto simp: answered_def write_body_def copyfile_def)

lemma answered_send_error: "headed s \<Longrightarrow> answered (send_error L code m e s)"
  unfolding send_error_def Let_def
  by (simp only: if_distrib [of answered] split: if_splits)
     (intro conjI impI answered_write_body answered_end_headers headed_intros; assumption)

lemma headed_send_error [headed_intros]: "headed s \<Longrightarrow> headed (send_error L code m e s)"
  by (rule answered_headed [OF answered_send_error])


lemma headed_handle_expect_100 [headed_intros]:
  "headed s \<Longrightarrow> headed (handle_expect_100 s)"
  unfolding handle_expect_100_def by (intro headed_intros)

lemma empty_headed: "wfile s = [] \<Longrightarrow> headed s"
  by (simp add: headed_def)

lemma headed_parse_request_version:
  "wfile s = [] \<Longrightarrow> parse_request_version L ws s = r \<Longrightarrow>
     (case r of Inl s' \<Rightarrow> headed s' | Inr s' \<Rightarrow> wfile s' = [])"
  unfolding parse_request_version_def Let_def
  by (auto split: if_splits option.splits prod.splits
      intro!: headed_intros simp: empty_headed)

lemma headed_parse_request_headers:
  "headed s \<Longrightarrow> headed (snd (parse_request_headers L rq s))"
  unfolding parse_request_headers_def Let_def
  by (auto split: header_result.splits if_splits intro!: headed_intros)

lemma headed_parse_request:
  assumes "wfile s = []"
  shows "headed (snd (parse_request L rq s))"
proof -
  define rl where "rl = rstrip_chars {CR, LF} (raw_requestline rq)"
  define s1 where "s1 = s\<lparr>command := None, request_version := default_request_version,
     close_connection := True, requestline := rl\<rparr>"
  have s1: "wfile s1 = []"
    using assms by (simp add: s1_def)
  show ?thesis
  proof (cases "parse_request_version L (split_ws rl) s1")
    case (Inl s2)
    with headed_parse_request_version [OF s1, of L "split_ws rl"] have "headed s2"
      by simp
    with Inl s1 show ?thesis
      unfolding parse_request_def Let_def rl_def [symmetric] s1_def [symmetric]
      by (simp add: empty_headed)
  next
    case (Inr s2)
    with headed_parse_request_version [OF s1, of L "split_ws rl"] have "wfile s2 = []"
      by simp
    then have "headed s2"
      by (rule empty_headed)
    with Inr s1 show ?thesis
      unfolding parse_request_def Let_def rl_def [symmetric] s1_def [symmetric]
      by (auto simp: empty_headed intro!: headed_intros headed_parse_request_headers)
  qed
qed

lemma answered_send_head_file:
  "headed s \<Longrightarrow> send_head_file L p s = Inr (s1, f) \<Longrightarrow> answered s1"
  unfolding send_head_file_def Let_def
  by (auto split: sum.splits if_splits
      intro!: answered_send_error answered_end_headers headed_intros)

lemma headed_send_head_file_raise:
  "headed s \<Longrightarrow> send_head_file L p s = Inl (e, s1) \<Longrightarrow> headed s1"
  unfolding send_head_file_def Let_def
  by (auto split: sum.splits if_splits)

lemma answered_list_directory:
  "headed s \<Longrightarrow> list_directory L p s = (s1, f) \<Longrightarrow> answered s1"
  unfolding list_directory_def Let_def
  by (auto split: option.splits
      intro!: answered_send_error answered_end_headers headed_intros)

lemma answered_send_head:
  "headed s \<Longrightarrow> send_head L s = Inr (s1, f) \<Longrightarrow> answered s1"
  unfolding send_head_def Let_def
  by (auto split: option.splits prod.splits if_splits
      intro!: answered_end_headers headed_intros
      dest: answered_send_head_file answered_list_directory)

lemma headed_send_head_raise:
  "headed s \<Longrightarrow> send_head L s = Inl (e, s1) \<Longrightarrow> headed s1"
  unfolding send_head_def Let_def
  by (auto split: option.splits prod.splits if_splits
      dest: headed_send_head_file_raise)

lemma headed_do_GET:
  assumes "headed s"
  shows "headed (result_state (do_GET L s))"
proof (cases "send_head L s")
  case (Inl a)
  obtain e s1 where "a = (e, s1)" by (cases a)
  with Inl headed_send_head_raise [OF assms] show ?thesis
    by (simp add: do_GET_def result_state_def)
next
  case (Inr b)
  obtain s1 f where b: "b = (s1, f)" by (cases b)
  with Inr have "answered s1"
    using answered_send_head [OF assms] by simp
  with Inr b show ?thesis
    by (auto simp: do_GET_def result_state_def split: option.splits
        intro!: answered_headed answered_write_body)
qed

lemma headed_do_HEAD:
  assumes "headed s"
  shows "headed (result_state (do_HEAD L s))"
proof (cases "send_head L s")
  case (Inl a)
  obtain e s1 where "a = (e, s1)" by (cases a)
  with Inl headed_send_head_raise [OF assms] show ?thesis
    by (simp add: do_HEAD_def result_state_def)
next
  case (Inr b)
  obtain s1 f where b: "b = (s1, f)" by (cases b)
  with Inr have "answered s1"
    using answered_send_head [OF assms] by simp
  with Inr b show ?thesis
    by (auto simp: do_HEAD_def result_state_def intro!: answered_headed)
qed

lemma headed_handle_one_request:
  assumes "wfile s = []"
  shows "headed (result_state (handle_one_request L rq s))"
proof -
  have parsed: "headed (snd (parse_request L rq s))"
    using assms by (rule headed_parse_request)
  have long: "headed (s\<lparr>requestline := [], request_version := [], command := Some []\<rparr>)"
    using assms by (simp add: headed_def)
  have closed: "headed (s\<lparr>close_connection := True\<rparr>)"
    using assms by (simp add: headed_def)
  show ?thesis
    using parsed long closed
    unfolding handle_one_request_def
    by (auto split: prod.splits bool.splits option.splits
        intro!: headed_intros headed_do_GET headed_do_HEAD
        simp: result_state_def [of "Inl _"] result_state_def [of "Inr _"])
qed

subsection \<open>Startup and exit\<close>

text \<open>
  Claim C6. The script binds the address \<^verbatim>\<open>("", 8080)\<close>: the empty host, which is every
  interface. When that bind succeeds the server listens on it and has printed its URL. When the
  bind raises \<^verbatim>\<open>OSError\<close> (port in use, no permission), then whatever the clients would send,
  the process ends with exit status 1 and the traceback on \<^verbatim>\<open>stderr\<close>; nothing was printed,
  no connection was served, and no socket listens.
\<close>

theorem bind_failure_is_fatal:
  "(sock_bind ([], 8080) = None \<longrightarrow>
      (\<exists>s. main L sock_bind F d [] = Serving s \<and> listening s = Some ([], 8080) \<and>
           stdout s = [''Serving at http://localhost:8080''])) \<and>
   (sock_bind ([], 8080) = Some err \<longrightarrow>
      (\<exists>s. main L sock_bind F d evs = Exited 1 s \<and> stderr s = [traceback (OSError err)] \<and>
           stdout s = [] \<and> sent s = [] \<and> listening s = None))"
  by (simp add: main_def PORT_def TCPServer_init_def uncaught_def exit_status_def
      add_wasm_type_def initial_def print_def Let_def decimal_PORT)

theorem bind_failure_is_fatal_witness:
  "(\<exists>s. main example_lib port_free example_fs ''/srv'' [] = Serving s \<and>
        listening s = Some ([], 8080) \<and> stdout s = [''Serving at http://localhost:8080'']) \<and>
   (\<exists>s. main example_lib port_in_use example_fs ''/srv''
          [Connection [example_request ''GET / HTTP/1.0'' []]] = Exited 1 s \<and>
        stderr s = [traceback (OSError ''[Errno 98] Address already in use'')] \<and>
        stdout s = [] \<and> sent s = [] \<and> listening s = None)"
proof -
  have free: "port_free ([], 8080) = None"
    by (simp add: port_free_def)
  have used: "port_in_use ([], 8080) = Some ''[Errno 98] Address already in use''"
    by (simp add: port_in_use_def)
  from bind_failure_is_fatal [where sock_bind = port_free and L = example_lib
      and F = example_fs and d = "''/srv''"] free
  have first: "\<exists>s. main example_lib port_free example_fs ''/srv'' [] = Serving s \<and>
        listening s = Some ([], 8080) \<and> stdout s = [''Serving at http://localhost:8080'']"
    by blast
  from bind_failure_is_fatal [where sock_bind = port_in_use and L = example_lib
      and F = example_fs and d = "''/srv''" and err = "''[Errno 98] Address already in use''"
      and evs = "[Connection [example_request ''GET / HTTP/1.0'' []]]"] used
  have second: "\<exists>s. main example_lib port_in_use example_fs ''/srv''
          [Connection [example_request ''GET / HTTP/1.0'' []]] = Exited 1 s \<and>
        stderr s = [traceback (OSError ''[Errno 98] Address already in use'')] \<and>
        stdout s = [] \<and> sent s = [] \<and> listening s = None"
    by blast
  from first second show ?thesis by blast
qed




subsection \<open>The serving loop\<close>



subsection \<open>Frame\<close>

text \<open>
  Claim C9. Serving changes nothing it reads: after any sequence of connections and
  interrupts, and whether the bind succeeded or not, the filesystem and the working directory
  are those the process started with, and the MIME map is the library's with the one entry
  for \<^verbatim>\<open>.wasm\<close> that the script added at startup.
\<close>

theorem requests_leave_the_world_unchanged:
  "fs (run_state (main L sock_bind F d evs)) = F \<and>
   cwd (run_state (main L sock_bind F d evs)) = d \<and>
   extensions_map (run_state (main L sock_bind F d evs)) =
     default_extensions_map(''.wasm'' \<mapsto> ''application/wasm'')"
proof (cases "sock_bind ([], 8080)")
  case (Some err)
  then show ?thesis
    by (simp add: main_unfold run_state_def add_wasm_type_def initial_def)
next
  case None
  define s0 where "s0 = (add_wasm_type (initial F d))
     \<lparr>listening := Some ([], 8080), stdout := [''Serving at http://localhost:8080'']\<rparr>"
  have frame: "serves s0 (result_state (serve_forever L evs s0))"
    by (rule serves_serve_forever)
  have s0: "fs s0 = F" "cwd s0 = d"
    "extensions_map s0 = default_extensions_map(''.wasm'' \<mapsto> ''application/wasm'')"
    by (simp_all add: s0_def add_wasm_type_def initial_def)
  show ?thesis
  proof (cases "serve_forever L evs s0")
    case (Inl a)
    obtain e s1 where "a = (e, s1)" by (cases a)
    with Inl frame s0 None show ?thesis
      by (simp add: main_unfold s0_def [symmetric] run_state_def result_state_def serves_def
          uncaught_def server_close_def)
  next
    case (Inr s1)
    with frame s0 None show ?thesis
      by (simp add: main_unfold s0_def [symmetric] run_state_def result_state_def serves_def)
  qed
qed

theorem requests_leave_the_world_unchanged_witness:
  "fs (run_state (main example_lib port_free example_fs ''/srv''
         [Connection [example_request ''GET /app.wasm HTTP/1.0'' []], Interrupt])) = example_fs \<and>
   cwd (run_state (main example_lib port_free example_fs ''/srv''
         [Connection [example_request ''GET /app.wasm HTTP/1.0'' []], Interrupt])) = ''/srv'' \<and>
   extensions_map (run_state (main example_lib port_free example_fs ''/srv''
         [Connection [example_request ''GET /app.wasm HTTP/1.0'' []], Interrupt])) ''.wasm'' =
     Some ''application/wasm''"
  using requests_leave_the_world_unchanged [of example_lib port_free example_fs "''/srv''"
      "[Connection [example_request ''GET /app.wasm HTTP/1.0'' []], Interrupt]"]
  by simp

subsection \<open>The methods, path by path\<close>





lemma protocol_below_11: "\<not> str_ge protocol_version ''HTTP/1.1''"
  by (simp add: protocol_version_def)


lemma error_body_nonempty [simp]: "error_body code m e \<noteq> []"
  by (simp add: error_body_def encode_utf8_def utf8_char_def Let_def)





lemma parse_request_two_words:
  assumes words: "split_ws (rstrip_chars {CR, LF} (raw_requestline rq)) = [''GET'', p]"
    and hdrs: "header_block rq = Headers hs"
  shows "parse_request L rq s =
    (True, s\<lparr>command := Some ''GET'', path := single_slash p,
              requestline := rstrip_chars {CR, LF} (raw_requestline rq),
              request_version := ''HTTP/0.9'', headers := hs, close_connection := True\<rparr>)"
  using assms
  by (simp add: parse_request_def parse_request_version_def parse_request_headers_def
      protocol_below_11 default_request_version_def Let_def)










subsection \<open>Methods other than GET and HEAD\<close>




end
